theory Spec2Isabelle
  imports Complex_Main
begin

section \<open>Python's numbers\<close>

text \<open>
  The program is a single Python module. A quantity or a stock count is an \<open>int\<close>, which
  is unbounded in Python and is an \<open>int\<close> here. A price, a percentage or a total is an
  \<open>int\<close> or a \<open>float\<close>: the sample data hold ints, the admin menu reads a price with
  \<open>float(input())\<close>, and a discount turns a price into a float. Strings are \<open>string\<close>.

  The exceptions of the modelled methods: an \<open>AttributeError\<close> when a method is called
  on \<open>None\<close>, a \<open>KeyError\<close> when a dictionary is indexed by an absent key, and what the
  arithmetic of the interpreter raises, such as an \<open>OverflowError\<close> when an int too large
  for a float meets a float.
\<close>

datatype error = AttributeError | KeyError string | OverflowError | ZeroDivisionError

text \<open>
  Arithmetic on ints is exact. Arithmetic on floats is the interpreter's and is not part of
  the module, so the floats are a type of their own, and the operations of the interpreter
  on them are taken as a parameter \<open>rt\<close> of every function that computes with prices:
  the conversion of an int to a float, the four operations on two floats, the true division
  of two ints (which gives a float) and the literal \<open>0.5\<close>. Each operation returns a float
  or the exception it raises; nothing is assumed about which.
\<close>

typedecl pyfloat

datatype number = PyInt int | PyFloat pyfloat

record runtime =
  float_of_int :: "int \<Rightarrow> error + pyfloat"
  float_add :: "pyfloat \<Rightarrow> pyfloat \<Rightarrow> error + pyfloat"
  float_sub :: "pyfloat \<Rightarrow> pyfloat \<Rightarrow> error + pyfloat"
  float_mul :: "pyfloat \<Rightarrow> pyfloat \<Rightarrow> error + pyfloat"
  float_truediv :: "pyfloat \<Rightarrow> pyfloat \<Rightarrow> error + pyfloat"
  int_truediv :: "int \<Rightarrow> int \<Rightarrow> error + pyfloat"
  float_half :: pyfloat

text \<open>An exception ends the evaluation of an expression: the rest is not evaluated.\<close>

definition and_then :: "error + 'a \<Rightarrow> ('a \<Rightarrow> error + 'b) \<Rightarrow> error + 'b" where
  "and_then result rest = (case result of Inl e \<Rightarrow> Inl e | Inr v \<Rightarrow> rest v)"

text \<open>
  A binary operator on two ints stays with the ints; when one operand is a float, the other
  is converted to a float first.
\<close>

definition as_float :: "runtime \<Rightarrow> number \<Rightarrow> error + pyfloat" where
  "as_float rt x = (case x of PyInt i \<Rightarrow> float_of_int rt i | PyFloat f \<Rightarrow> Inr f)"

definition on_floats ::
  "runtime \<Rightarrow> (pyfloat \<Rightarrow> pyfloat \<Rightarrow> error + pyfloat) \<Rightarrow> number \<Rightarrow> number \<Rightarrow> error + number" where
  "on_floats rt operation x y =
     and_then (as_float rt x) (\<lambda>a.
     and_then (as_float rt y) (\<lambda>b.
     and_then (operation a b) (\<lambda>c. Inr (PyFloat c))))"

fun py_add :: "runtime \<Rightarrow> number \<Rightarrow> number \<Rightarrow> error + number" where
  "py_add rt (PyInt i) (PyInt j) = Inr (PyInt (i + j))"
| "py_add rt x y = on_floats rt (float_add rt) x y"

fun py_sub :: "runtime \<Rightarrow> number \<Rightarrow> number \<Rightarrow> error + number" where
  "py_sub rt (PyInt i) (PyInt j) = Inr (PyInt (i - j))"
| "py_sub rt x y = on_floats rt (float_sub rt) x y"

fun py_mul :: "runtime \<Rightarrow> number \<Rightarrow> number \<Rightarrow> error + number" where
  "py_mul rt (PyInt i) (PyInt j) = Inr (PyInt (i * j))"
| "py_mul rt x y = on_floats rt (float_mul rt) x y"

fun py_truediv :: "runtime \<Rightarrow> number \<Rightarrow> number \<Rightarrow> error + number" where
  "py_truediv rt (PyInt i) (PyInt j) = and_then (int_truediv rt i j) (\<lambda>c. Inr (PyFloat c))"
| "py_truediv rt x y = on_floats rt (float_truediv rt) x y"

section \<open>Data model\<close>

text \<open>
  The strategy classes. The base class \<open>DiscountStrategy\<close> returns the price as it is.
  \<open>PercentageOffDiscountStrategy\<close> computes \<^verbatim>\<open>price * (1 - self.percentage / 100)\<close> and
  \<open>BuyOneGetOneFreeDiscountStrategy\<close> computes \<^verbatim>\<open>price * 0.5\<close>; both pass the result to
  the method of the base class (\<open>super().apply_discount\<close>), here \<open>base_apply_discount\<close>.
\<close>

datatype DiscountStrategy =
    DiscountStrategy
  | PercentageOffDiscountStrategy number
  | BuyOneGetOneFreeDiscountStrategy

definition base_apply_discount :: "number \<Rightarrow> number" where
  "base_apply_discount p = p"

fun apply_discount :: "runtime \<Rightarrow> DiscountStrategy \<Rightarrow> number \<Rightarrow> error + number" where
  "apply_discount rt DiscountStrategy p = Inr (base_apply_discount p)"
| "apply_discount rt (PercentageOffDiscountStrategy percentage) p =
     and_then (py_truediv rt percentage (PyInt 100)) (\<lambda>fraction.
     and_then (py_sub rt (PyInt 1) fraction) (\<lambda>factor.
     and_then (py_mul rt p factor) (\<lambda>reduced. Inr (base_apply_discount reduced))))"
| "apply_discount rt BuyOneGetOneFreeDiscountStrategy p =
     and_then (py_mul rt p (PyFloat (float_half rt))) (\<lambda>reduced.
       Inr (base_apply_discount reduced))"

text \<open>
  \<open>Product\<close> and \<open>CartItem\<close> both start with the attributes \<open>name\<close> and \<open>price\<close>.
  \<open>ShoppingCart.add_item\<close> reads only these two from its \<open>product\<close> argument, and the
  customer menu hands it a \<open>CartItem\<close> (the result of \<open>clone\<close>), so the two classes
  extend a common record, as Python's duck typing has it.
\<close>

record Priced =
  name :: string
  price :: number

record Product = Priced +
  available :: bool
  count :: int
  discount :: number

text \<open>
  The attribute \<open>discount_strategy\<close> holds a strategy object or \<open>None\<close>: the customer
  menu passes \<open>None\<close> for a product whose discount is not positive.
\<close>

record CartItem = Priced +
  quantity :: int
  discount_strategy :: "DiscountStrategy option"

section \<open>CartItem\<close>

text \<open>
  \<open>CartItem.calculate_total\<close>:
  \<^verbatim>\<open>return self.discount_strategy.apply_discount(self.price) * self.quantity\<close>
  The attribute access on \<open>None\<close> raises; otherwise the discounted price is computed and
  multiplied by the quantity, an int.
\<close>

definition calculate_total :: "runtime \<Rightarrow> CartItem \<Rightarrow> error + number" where
  "calculate_total rt item =
     (case discount_strategy item of
        None \<Rightarrow> Inl AttributeError
      | Some strategy \<Rightarrow>
          and_then (apply_discount rt strategy (price item)) (\<lambda>discounted.
            py_mul rt discounted (PyInt (quantity item))))"

section \<open>ShoppingCart\<close>

text \<open>
  The cart is the list \<open>cart_items\<close>. Every method is a function from the list before the
  call to the list after it. The calls to the logger in \<open>add_item\<close>, \<open>update_quantity\<close>
  and \<open>remove_item\<close> change nothing and return nothing; they are left out.
\<close>

definition add_item ::
  "'a Priced_scheme \<Rightarrow> int \<Rightarrow> DiscountStrategy option \<Rightarrow> CartItem list \<Rightarrow> CartItem list" where
  "add_item product q strategy cart_items =
     cart_items @
       [\<lparr>name = name product, price = price product, quantity = q, discount_strategy = strategy\<rparr>]"

text \<open>\<open>update_quantity\<close> overwrites the quantity of the first item of that name and returns.\<close>

fun update_quantity :: "string \<Rightarrow> int \<Rightarrow> CartItem list \<Rightarrow> CartItem list" where
  "update_quantity product_name new_quantity [] = []"
| "update_quantity product_name new_quantity (item # rest) =
     (if name item = product_name then item\<lparr>quantity := new_quantity\<rparr> # rest
      else item # update_quantity product_name new_quantity rest)"

text \<open>
  \<open>remove_item\<close> with a quantity runs
  \<^verbatim>\<open>
  for item in self.cart_items:
      if item.name == product_name:
          item.quantity -= remove_quantity
          if item.quantity <= 0:
              self.cart_items.remove(item)
  \<close>
  over the list it is changing. Python's list iterator keeps an index \<open>i\<close>: each round it
  stops if \<open>i\<close> has reached the current length, and otherwise takes the element at \<open>i\<close>
  and moves to \<open>i + 1\<close>. \<open>list.remove(item)\<close> deletes the first element equal to
  \<open>item\<close>; \<open>CartItem\<close> defines no \<open>__eq__\<close>, so equality is identity, the objects of the
  list are distinct (\<open>add_item\<close> builds a new one each time), and the element deleted is
  the one at index \<open>i\<close>.
\<close>

function remove_loop :: "string \<Rightarrow> int \<Rightarrow> nat \<Rightarrow> CartItem list \<Rightarrow> CartItem list" where
  "remove_loop product_name remove_quantity i cart_items =
     (if i < length cart_items then
        (let item = cart_items ! i in
         if name item = product_name then
           (let item' = item\<lparr>quantity := quantity item - remove_quantity\<rparr> in
            if quantity item' \<le> 0
            then remove_loop product_name remove_quantity (Suc i)
                   (take i cart_items @ drop (Suc i) cart_items)
            else remove_loop product_name remove_quantity (Suc i) (cart_items[i := item']))
         else remove_loop product_name remove_quantity (Suc i) cart_items)
      else cart_items)"
  by pat_completeness auto
termination
  by (relation "measure (\<lambda>(n, q, i, xs). length xs - i)") auto

declare remove_loop.simps [simp del]

text \<open>
  \<open>remove_item\<close>: with \<open>remove_quantity\<close> left at its default \<open>None\<close> the list is rebuilt
  without the items of that name; otherwise the loop above runs.
\<close>

definition remove_item :: "string \<Rightarrow> int option \<Rightarrow> CartItem list \<Rightarrow> CartItem list" where
  "remove_item product_name remove_quantity cart_items =
     (case remove_quantity of
        None \<Rightarrow> filter (\<lambda>item. name item \<noteq> product_name) cart_items
      | Some q \<Rightarrow> remove_loop product_name q 0 cart_items)"

text \<open>
  \<open>calculate_total_bill\<close> is \<^verbatim>\<open>sum(item.calculate_total() for item in self.cart_items)\<close>:
  \<open>sum\<close> starts from the int 0, takes the totals one at a time from the generator and
  adds each to what it has, from the left; the first total or addition that raises ends it.
\<close>

fun sum_totals :: "runtime \<Rightarrow> number \<Rightarrow> CartItem list \<Rightarrow> error + number" where
  "sum_totals rt acc [] = Inr acc"
| "sum_totals rt acc (item # rest) =
     and_then (calculate_total rt item) (\<lambda>t.
     and_then (py_add rt acc t) (\<lambda>acc'. sum_totals rt acc' rest))"

definition calculate_total_bill :: "runtime \<Rightarrow> CartItem list \<Rightarrow> error + number" where
  "calculate_total_bill rt cart_items = sum_totals rt (PyInt 0) cart_items"

text \<open>
  What the methods write to the logger is the only thing \<open>checkout\<close> tells its caller (it
  returns \<open>None\<close> on every path), so the log is part of the model: one constructor for each
  message of \<open>display_cart\<close> and \<open>checkout\<close>, carrying the values the message is
  formatted from.
\<close>

datatype log_record =
    CartItemsInfo "(int \<times> string) list"
  | TotalBillInfo number
  | CheckedOutInfo int string int bool
  | NotEnoughStockWarning string
  | PurchaseSuccessfulInfo
  | CheckoutErrorLog error

text \<open>
  \<open>display_cart\<close> logs the items, then formats the total bill; when the bill raises, the
  first message is already out and the second is not written.
\<close>

definition display_cart :: "runtime \<Rightarrow> CartItem list \<Rightarrow> log_record list \<times> error option" where
  "display_cart rt cart_items =
     (let cart_info = CartItemsInfo (map (\<lambda>item. (quantity item, name item)) cart_items) in
      case calculate_total_bill rt cart_items of
        Inl e \<Rightarrow> ([cart_info], Some e)
      | Inr total_bill \<Rightarrow> ([cart_info, TotalBillInfo total_bill], None))"

text \<open>
  The catalog \<open>ProductPrototype.products\<close> is a dictionary from a name to a \<open>Product\<close>
  object. \<open>register_product\<close> stores a new object under each name, so no two names share an
  object and a change of \<open>products[name]\<close> is a change of the map at \<open>name\<close>.

  The body of the loop of \<open>checkout\<close>, for one item: the catalog after it, what it logs,
  and whether the loop goes on (\<open>False\<close> is the \<^verbatim>\<open>return\<close>). A \<open>Product\<close> object is
  always true in \<^verbatim>\<open>if product:\<close>; only a missing entry (\<open>get\<close> returns \<open>None\<close>)
  skips the item.
\<close>

definition checkout_item ::
  "CartItem \<Rightarrow> (string \<rightharpoonup> Product) \<Rightarrow> (string \<rightharpoonup> Product) \<times> log_record list \<times> bool" where
  "checkout_item item products =
     (let product_name = name item; q = quantity item in
      case products product_name of
        None \<Rightarrow> (products, [], True)
      | Some product \<Rightarrow>
          if count product \<ge> q then
            (let product1 = product\<lparr>count := count product - q\<rparr>;
                 product2 = (if count product1 = 0 then product1\<lparr>available := False\<rparr>
                             else product1)
             in (products(product_name \<mapsto> product2),
                 [CheckedOutInfo q product_name (count product2) (available product2)],
                 True))
          else (products, [NotEnoughStockWarning product_name], False))"

fun checkout_loop ::
  "CartItem list \<Rightarrow> (string \<rightharpoonup> Product) \<Rightarrow> (string \<rightharpoonup> Product) \<times> log_record list \<times> bool" where
  "checkout_loop [] products = (products, [], True)"
| "checkout_loop (item # rest) products =
     (case checkout_item item products of
        (products1, logs1, False) \<Rightarrow> (products1, logs1, False)
      | (products1, logs1, True) \<Rightarrow>
          (case checkout_loop rest products1 of
             (products2, logs2, finished) \<Rightarrow> (products2, logs1 @ logs2, finished)))"

text \<open>
  \<open>checkout\<close>: the catalog after the call and the messages logged, in order. An exception
  of \<open>display_cart\<close> is caught by the \<^verbatim>\<open>except\<close> clause, which logs it; the loop has
  not started then. The success message is written when the loop runs to its end.
\<close>

definition checkout ::
  "runtime \<Rightarrow> CartItem list \<Rightarrow> (string \<rightharpoonup> Product)
     \<Rightarrow> (string \<rightharpoonup> Product) \<times> log_record list" where
  "checkout rt cart_items products =
     (case display_cart rt cart_items of
        (logs, Some e) \<Rightarrow> (products, logs @ [CheckoutErrorLog e])
      | (logs, None) \<Rightarrow>
          (case checkout_loop cart_items products of
             (products', logs', finished) \<Rightarrow>
               (products', logs @ logs' @ (if finished then [PurchaseSuccessfulInfo] else []))))"

section \<open>ProductPrototype\<close>

text \<open>
  \<open>register_product(product_class, name, price, available, discount)\<close> builds
  \<open>product_class(name, price, available, discount=discount)\<close>; every caller passes the class
  \<open>Product\<close>, whose \<open>count\<close> defaults to 10.
\<close>

definition register_product ::
  "(string \<rightharpoonup> Product) \<Rightarrow> string \<Rightarrow> number \<Rightarrow> bool \<Rightarrow> number
     \<Rightarrow> (string \<rightharpoonup> Product)" where
  "register_product products n p a d =
     products(n \<mapsto> \<lparr>name = n, price = p, available = a, count = 10, discount = d\<rparr>)"

text \<open>
  \<open>clone\<close> indexes the dictionary (a \<open>KeyError\<close> for an absent name), copies the product
  and builds a \<open>CartItem\<close> from the copy's name and price.
\<close>

definition clone ::
  "(string \<rightharpoonup> Product) \<Rightarrow> string \<Rightarrow> int \<Rightarrow> DiscountStrategy option \<Rightarrow> error + CartItem" where
  "clone products n q strategy =
     (case products n of
        None \<Rightarrow> Inl (KeyError n)
      | Some product \<Rightarrow>
          Inr \<lparr>name = name product, price = price product, quantity = q,
               discount_strategy = strategy\<rparr>)"

text \<open>
  The catalog that \<open>load_products\<close> leaves in a new \<open>ProductPrototype\<close>: each entry of
  \<open>product_data\<close> is registered and its \<open>count\<close> is then overwritten.
\<close>

definition loaded_products :: "string \<rightharpoonup> Product" where
  "loaded_products =
     [''Laptop1'' \<mapsto> \<lparr>name = ''Laptop1'', price = PyInt 800, available = True, count = 20, discount = PyInt 5\<rparr>,
      ''Headphones1'' \<mapsto>
        \<lparr>name = ''Headphones1'', price = PyInt 50, available = False, count = 10, discount = PyInt 0\<rparr>]"

section \<open>Objects and references\<close>

text \<open>
  The definitions above hold a \<open>CartItem\<close> and a \<open>Product\<close> as values. Whether an item of
  the cart can change when a product of the catalog is changed is a question about
  references, so \<open>clone\<close> is also given over an explicit store: a list of objects, the
  address of an object being its index. The dictionary \<open>products\<close> then maps a name to the
  address of a \<open>Product\<close> object, and an assignment to an attribute of the object at
  address \<open>a\<close> replaces the element at \<open>a\<close>. An attribute holds a string or a number, which
  are immutable in Python, so an object of the store holds them as values. Python has no
  dangling reference: an address held by the dictionary is below the length of the store.
\<close>

datatype pyobject = ProductObject Product | CartItemObject CartItem

fun object_name :: "pyobject \<Rightarrow> string" where
  "object_name (ProductObject product) = name product"
| "object_name (CartItemObject item) = name item"

fun object_price :: "pyobject \<Rightarrow> number" where
  "object_price (ProductObject product) = price product"
| "object_price (CartItemObject item) = price item"

text \<open>
  \<open>clone\<close> over the store: \<open>copy.deepcopy\<close> allocates a new object with the attributes of
  the product looked up, and the \<open>CartItem\<close> constructor allocates the item from the name
  and the price of that copy. The call returns the new store and the address of the item.
\<close>

definition clone_in_store ::
  "pyobject list \<Rightarrow> (string \<rightharpoonup> nat) \<Rightarrow> string \<Rightarrow> int \<Rightarrow> DiscountStrategy option
     \<Rightarrow> error + pyobject list \<times> nat" where
  "clone_in_store store products n q strategy =
     (case products n of
        None \<Rightarrow> Inl (KeyError n)
      | Some a \<Rightarrow>
          (let store1 = store @ [store ! a];
               product = store1 ! length store;
               item = \<lparr>name = object_name product, price = object_price product, quantity = q,
                       discount_strategy = strategy\<rparr>
           in Inr (store1 @ [CartItemObject item], length store1)))"

text \<open>The catalog of values that a store and a dictionary of addresses stand for.\<close>

definition catalog_of :: "pyobject list \<Rightarrow> (string \<rightharpoonup> nat) \<Rightarrow> (string \<rightharpoonup> Product)" where
  "catalog_of store products n =
     (case products n of
        None \<Rightarrow> None
      | Some a \<Rightarrow> (case store ! a of ProductObject product \<Rightarrow> Some product
                                   | CartItemObject item \<Rightarrow> None))"

section \<open>The checkout loop\<close>

lemma checkout_item_sufficient:
  "products (name item) = Some product \<Longrightarrow> quantity item \<le> count product \<Longrightarrow>
   checkout_item item products =
     (products(name item \<mapsto>
        product\<lparr>available := available product \<and> count product \<noteq> quantity item,
                count := count product - quantity item\<rparr>),
      [CheckedOutInfo (quantity item) (name item) (count product - quantity item)
         (available product \<and> count product \<noteq> quantity item)],
      True)"
  by (auto simp: checkout_item_def Let_def)

lemma checkout_item_insufficient:
  "products (name item) = Some product \<Longrightarrow> count product < quantity item \<Longrightarrow>
   checkout_item item products = (products, [NotEnoughStockWarning (name item)], False)"
  by (simp add: checkout_item_def)

lemma checkout_loop_append:
  "checkout_loop (pre @ rest) products =
     (case checkout_loop pre products of
        (products1, logs1, False) \<Rightarrow> (products1, logs1, False)
      | (products1, logs1, True) \<Rightarrow>
          (case checkout_loop rest products1 of
             (products2, logs2, finished) \<Rightarrow> (products2, logs1 @ logs2, finished)))"
  by (induction pre arbitrary: products) (auto split: prod.splits bool.splits)

lemma fst_checkout_loop_Cons:
  "fst (checkout_loop (item # rest) products) =
     (if snd (snd (checkout_item item products))
      then fst (checkout_loop rest (fst (checkout_item item products)))
      else fst (checkout_item item products))"
  by (cases "checkout_item item products") (auto split: prod.splits bool.splits)

lemma checkout_item_other:
  "n \<noteq> name item \<Longrightarrow> fst (checkout_item item products) n = products n"
  by (auto simp: checkout_item_def Let_def split: option.splits)

lemma checkout_loop_other:
  "n \<notin> name ` set cart_items \<Longrightarrow> fst (checkout_loop cart_items products) n = products n"
  by (induction cart_items arbitrary: products)
     (simp_all add: fst_checkout_loop_Cons checkout_item_other del: checkout_loop.simps(2))

lemma checkout_item_None:
  "products n = None \<Longrightarrow> fst (checkout_item item products) n = None"
  by (auto simp: checkout_item_def Let_def split: option.splits)

lemma checkout_loop_None:
  "products n = None \<Longrightarrow> fst (checkout_loop cart_items products) n = None"
  by (induction cart_items arbitrary: products)
     (simp_all add: fst_checkout_loop_Cons checkout_item_None del: checkout_loop.simps(2))

lemma checkout_loop_counts:
  "checkout_loop cart_items products = (products', logs, True) \<Longrightarrow> products n = Some p \<Longrightarrow>
   \<exists>p'. products' n = Some p'
      \<and> count p' = count p - (\<Sum>item\<leftarrow>filter (\<lambda>item. name item = n) cart_items. quantity item)
      \<and> name p' = name p \<and> price p' = price p \<and> discount p' = discount p
      \<and> (available p' \<longrightarrow> available p)
      \<and> (n \<in> name ` set cart_items \<and> count p' = 0 \<longrightarrow> \<not> available p')"
proof (induction cart_items arbitrary: products p logs)
  case Nil
  then show ?case by simp
next
  case (Cons item rest)
  obtain products1 logs1 go where step: "checkout_item item products = (products1, logs1, go)"
    by (cases "checkout_item item products") auto
  have go: "go"
    using Cons.prems(1) step by (cases go) simp_all
  obtain logs2 where rest: "checkout_loop rest products1 = (products', logs2, True)"
    using Cons.prems(1) step go by (cases "checkout_loop rest products1") simp
  show ?case
  proof (cases "name item = n")
    case False
    then have "products1 n = Some p"
      using checkout_item_other [of n item products] step Cons.prems(2) by simp
    from Cons.IH [OF rest this] False show ?thesis by auto
  next
    case True
    have suff: "quantity item \<le> count p"
      using step go True Cons.prems(2) by (auto simp: checkout_item_def Let_def split: if_splits)
    let ?p1 = "p\<lparr>available := available p \<and> count p \<noteq> quantity item,
                  count := count p - quantity item\<rparr>"
    have p1: "products1 n = Some ?p1"
      using checkout_item_sufficient [of products item p] True Cons.prems(2) suff step by auto
    from Cons.IH [OF rest p1] obtain p' where p':
      "products' n = Some p'"
      "count p' = count ?p1 - (\<Sum>item\<leftarrow>filter (\<lambda>item. name item = n) rest. quantity item)"
      "name p' = name ?p1" "price p' = price ?p1" "discount p' = discount ?p1"
      "available p' \<longrightarrow> available ?p1"
      "n \<in> name ` set rest \<and> count p' = 0 \<longrightarrow> \<not> available p'"
      by blast
    have last: "n \<notin> name ` set rest \<Longrightarrow> p' = ?p1"
      using checkout_loop_other [of n rest products1] rest p1 p'(1) by simp
    show ?thesis
    proof (cases "n \<in> name ` set rest")
      case True
      then show ?thesis
        using p' \<open>name item = n\<close> by (intro exI [of _ p']) auto
    next
      case False
      then have "filter (\<lambda>item. name item = n) rest = []"
        by (auto simp: filter_empty_conv)
      then show ?thesis
        using p'(1) last [OF False] \<open>name item = n\<close> by (intro exI [of _ p']) auto
    qed
  qed
qed

lemma checkout_loop_stops:
  "checkout_loop cart_items products = (products', logs, False) \<Longrightarrow>
   \<exists>pre bad post logs1 product.
      cart_items = pre @ bad # post
    \<and> checkout_loop pre products = (products', logs1, True)
    \<and> products' (name bad) = Some product \<and> count product < quantity bad
    \<and> logs = logs1 @ [NotEnoughStockWarning (name bad)]"
proof (induction cart_items arbitrary: products logs)
  case Nil
  then show ?case by simp
next
  case (Cons item rest)
  obtain products1 logs1 go where step: "checkout_item item products = (products1, logs1, go)"
    by (cases "checkout_item item products") auto
  show ?case
  proof (cases go)
    case False
    then have out: "products' = products1" "logs = logs1"
      using Cons.prems step by auto
    from step False obtain product where
      "products (name item) = Some product" "count product < quantity item"
      "products1 = products" "logs1 = [NotEnoughStockWarning (name item)]"
      by (auto simp: checkout_item_def Let_def split: option.splits if_splits)
    then show ?thesis
      using out by (intro exI [of _ "[]"] exI [of _ item] exI [of _ rest] exI [of _ "[]"]
                          exI [of _ product]) simp
  next
    case True
    then obtain logs2 where rest: "checkout_loop rest products1 = (products', logs2, False)"
      and logs: "logs = logs1 @ logs2"
      using Cons.prems step by (cases "checkout_loop rest products1") simp
    from Cons.IH [OF rest] obtain pre bad post logs3 product where d:
      "rest = pre @ bad # post" "checkout_loop pre products1 = (products', logs3, True)"
      "products' (name bad) = Some product" "count product < quantity bad"
      "logs2 = logs3 @ [NotEnoughStockWarning (name bad)]"
      by blast
    have "checkout_loop (item # pre) products = (products', logs1 @ logs3, True)"
      using step True d(2) by simp
    then show ?thesis
      using d logs
      by (intro exI [of _ "item # pre"] exI [of _ bad] exI [of _ post] exI [of _ "logs1 @ logs3"]
                exI [of _ product]) simp
  qed
qed

lemma checkout_bill_raises:
  "calculate_total_bill rt cart_items = Inl e \<Longrightarrow>
   checkout rt cart_items products =
     (products,
      [CartItemsInfo (map (\<lambda>item. (quantity item, name item)) cart_items), CheckoutErrorLog e])"
  by (simp add: checkout_def display_cart_def)

lemma checkout_bill_returns:
  assumes "calculate_total_bill rt cart_items = Inr bill"
    and "checkout_loop cart_items products = (products', logs', finished)"
  shows "fst (checkout rt cart_items products) = products'"
    and "last (snd (checkout rt cart_items products)) =
           (if finished then PurchaseSuccessfulInfo else last logs')"
    and "\<not> finished \<Longrightarrow> logs' \<noteq> []"
proof -
  show "fst (checkout rt cart_items products) = products'"
    using assms by (simp add: checkout_def display_cart_def)
  show ne: "\<not> finished \<Longrightarrow> logs' \<noteq> []"
    using checkout_loop_stops [of cart_items products products' logs'] assms(2) by auto
  show "last (snd (checkout rt cart_items products)) =
           (if finished then PurchaseSuccessfulInfo else last logs')"
    using assms ne by (simp add: checkout_def display_cart_def)
qed

text \<open>
  On ints alone the bill is exact: when the total of every item is an int, the bill is the
  sum of these ints.
\<close>

lemma sum_totals_ints:
  "list_all2 (\<lambda>item t. calculate_total rt item = Inr (PyInt t)) cart_items totals \<Longrightarrow>
   sum_totals rt (PyInt acc) cart_items = Inr (PyInt (acc + sum_list totals))"
  by (induction cart_items totals arbitrary: acc rule: list_all2_induct)
     (simp_all add: and_then_def add.assoc)

section \<open>Checkout\<close>

text \<open>
  C1. When the loop of \<open>checkout\<close> comes to an item whose name is in the catalog with a
  count of at least the item's quantity, the count of that entry goes down by the quantity,
  \<open>available\<close> is assigned \<open>False\<close> exactly when the new count is 0 and is otherwise left
  as it was, and the loop goes on. So the entry ends with count 0 and unavailable when the
  quantity is the whole count, and with its \<open>available\<close> as before when the quantity is
  smaller. For a cart of one such item, \<open>checkout\<close> leaves the catalog with that entry
  updated when the bill it displays first can be computed, and as it was when the bill
  raises.
\<close>

theorem checkout_decrements_stock:
  assumes "products (name item) = Some product" and "quantity item \<le> count product"
  shows "(let product' = product\<lparr>count := count product - quantity item,
                                  available := (if count product - quantity item = 0 then False
                                                else available product)\<rparr>
          in checkout_item item products =
               (products(name item \<mapsto> product'),
                [CheckedOutInfo (quantity item) (name item) (count product') (available product')],
                True)
           \<and> fst (checkout rt [item] products) =
               (case calculate_total_bill rt [item] of
                  Inl e \<Rightarrow> products
                | Inr bill \<Rightarrow> products(name item \<mapsto> product'))
           \<and> (quantity item = count product \<longrightarrow> count product' = 0 \<and> \<not> available product')
           \<and> (quantity item < count product \<longrightarrow>
                 count product' = count product - quantity item
               \<and> available product' = available product))"
proof -
  let ?product' = "product\<lparr>count := count product - quantity item,
                      available := (if count product - quantity item = 0 then False
                                    else available product)\<rparr>"
  let ?logs = "[CheckedOutInfo (quantity item) (name item) (count ?product') (available ?product')]"
  have step: "checkout_item item products = (products(name item \<mapsto> ?product'), ?logs, True)"
    using assms by (auto simp: checkout_item_def Let_def)
  have loop: "checkout_loop [item] products = (products(name item \<mapsto> ?product'), ?logs, True)"
    using step by simp
  have whole: "fst (checkout rt [item] products) =
               (case calculate_total_bill rt [item] of
                  Inl e \<Rightarrow> products
                | Inr bill \<Rightarrow> products(name item \<mapsto> ?product'))"
  proof (cases "calculate_total_bill rt [item]")
    case (Inl e)
    then show ?thesis by (simp add: checkout_bill_raises)
  next
    case (Inr bill)
    then show ?thesis using checkout_bill_returns(1) [OF Inr loop] by simp
  qed
  show ?thesis
    unfolding Let_def using step whole by auto
qed

theorem checkout_decrements_stock_witness:
  "\<forall>rt.
     checkout_item
       \<lparr>name = ''Laptop1'', price = PyInt 800, quantity = 20,
          discount_strategy = Some DiscountStrategy\<rparr>
       loaded_products
     = (loaded_products(''Laptop1'' \<mapsto>
          \<lparr>name = ''Laptop1'', price = PyInt 800, available = False, count = 0,
             discount = PyInt 5\<rparr>),
        [CheckedOutInfo 20 ''Laptop1'' 0 False], True)
   \<and> fst (checkout rt
       [\<lparr>name = ''Laptop1'', price = PyInt 800, quantity = 20,
          discount_strategy = Some DiscountStrategy\<rparr>]
       loaded_products)
     = loaded_products(''Laptop1'' \<mapsto>
        \<lparr>name = ''Laptop1'', price = PyInt 800, available = False, count = 0,
           discount = PyInt 5\<rparr>)"
proof
  fix rt
  let ?item = "\<lparr>name = ''Laptop1'', price = PyInt 800, quantity = 20,
                 discount_strategy = Some DiscountStrategy\<rparr>"
  let ?laptop = "\<lparr>name = ''Laptop1'', price = PyInt 800, available = True, count = 20,
                   discount = PyInt 5\<rparr>"
  have h1: "loaded_products (name ?item) = Some ?laptop"
    by (simp add: loaded_products_def)
  have h2: "quantity ?item \<le> count ?laptop"
    by simp
  have bill: "calculate_total_bill rt [?item] = Inr (PyInt 16000)"
    by (simp add: calculate_total_bill_def calculate_total_def base_apply_discount_def and_then_def)
  show "checkout_item ?item loaded_products
     = (loaded_products(''Laptop1'' \<mapsto>
          \<lparr>name = ''Laptop1'', price = PyInt 800, available = False, count = 0,
             discount = PyInt 5\<rparr>),
        [CheckedOutInfo 20 ''Laptop1'' 0 False], True)
   \<and> fst (checkout rt [?item] loaded_products)
     = loaded_products(''Laptop1'' \<mapsto>
        \<lparr>name = ''Laptop1'', price = PyInt 800, available = False, count = 0,
           discount = PyInt 5\<rparr>)"
    using h1 h2 bill checkout_decrements_stock [of loaded_products ?item ?laptop rt]
    by (simp add: Let_def)
qed

text \<open>
  C2. Let the loop of \<open>checkout\<close> work through the items \<open>pre\<close> without stopping, and let
  the next item \<open>bad\<close> ask for more than the count its entry has at that moment. Then the
  loop stops there: the catalog is the one reached after \<open>pre\<close> (the counts of the entries
  are the initial counts less the quantities of the items of \<open>pre\<close>, nothing is restored),
  the items after \<open>bad\<close> have no effect, and an entry that no item of \<open>pre\<close> names is as it
  was. \<open>checkout\<close> ends with that catalog and with the message naming \<open>bad\<close> when the bill
  it displays first can be computed; when the bill raises, the loop is not reached.
\<close>

theorem checkout_stops_at_first_shortage:
  assumes "checkout_loop pre products = (products1, logs1, True)"
    and "products1 (name bad) = Some product"
    and "count product < quantity bad"
  shows "checkout_loop (pre @ bad # post) products
           = (products1, logs1 @ [NotEnoughStockWarning (name bad)], False)
       \<and> (\<forall>n p. products n = Some p \<longrightarrow>
             (\<exists>p'. products1 n = Some p'
                \<and> count p' = count p - (\<Sum>item\<leftarrow>filter (\<lambda>item. name item = n) pre. quantity item)))
       \<and> (\<forall>n. n \<notin> name ` set pre \<longrightarrow> products1 n = products n)
       \<and> (case calculate_total_bill rt (pre @ bad # post) of
             Inl e \<Rightarrow>
               fst (checkout rt (pre @ bad # post) products) = products
             \<and> last (snd (checkout rt (pre @ bad # post) products)) = CheckoutErrorLog e
           | Inr bill \<Rightarrow>
               fst (checkout rt (pre @ bad # post) products) = products1
             \<and> last (snd (checkout rt (pre @ bad # post) products))
                 = NotEnoughStockWarning (name bad))"
proof -
  have stop: "checkout_loop (bad # post) products1
                = (products1, [NotEnoughStockWarning (name bad)], False)"
    using checkout_item_insufficient [of products1 bad product] assms(2,3) by simp
  have loop: "checkout_loop (pre @ bad # post) products
           = (products1, logs1 @ [NotEnoughStockWarning (name bad)], False)"
    using assms(1) stop by (simp add: checkout_loop_append [of pre "bad # post"])
  have counts: "\<forall>n p. products n = Some p \<longrightarrow>
             (\<exists>p'. products1 n = Some p'
                \<and> count p' = count p - (\<Sum>item\<leftarrow>filter (\<lambda>item. name item = n) pre. quantity item))"
    using checkout_loop_counts [OF assms(1)] by blast
  have others: "\<forall>n. n \<notin> name ` set pre \<longrightarrow> products1 n = products n"
    using checkout_loop_other [of _ pre products] assms(1) by simp
  have whole: "(case calculate_total_bill rt (pre @ bad # post) of
             Inl e \<Rightarrow>
               fst (checkout rt (pre @ bad # post) products) = products
             \<and> last (snd (checkout rt (pre @ bad # post) products)) = CheckoutErrorLog e
           | Inr bill \<Rightarrow>
               fst (checkout rt (pre @ bad # post) products) = products1
             \<and> last (snd (checkout rt (pre @ bad # post) products))
                 = NotEnoughStockWarning (name bad))"
  proof (cases "calculate_total_bill rt (pre @ bad # post)")
    case (Inl e)
    then show ?thesis by (simp add: checkout_bill_raises)
  next
    case (Inr bill)
    then show ?thesis using checkout_bill_returns(1,2) [OF Inr loop] by simp
  qed
  show ?thesis
    using loop counts others whole by blast
qed

theorem checkout_stops_at_first_shortage_witness:
  "\<forall>rt.
     fst (checkout rt
          [\<lparr>name = ''Laptop1'', price = PyInt 800, quantity = 5, discount_strategy = Some DiscountStrategy\<rparr>,
           \<lparr>name = ''Headphones1'', price = PyInt 50, quantity = 25, discount_strategy = Some DiscountStrategy\<rparr>,
           \<lparr>name = ''Laptop1'', price = PyInt 800, quantity = 1, discount_strategy = Some DiscountStrategy\<rparr>]
          loaded_products)
     = loaded_products(''Laptop1'' \<mapsto>
         \<lparr>name = ''Laptop1'', price = PyInt 800, available = True, count = 15, discount = PyInt 5\<rparr>)
   \<and> last (snd (checkout rt
          [\<lparr>name = ''Laptop1'', price = PyInt 800, quantity = 5, discount_strategy = Some DiscountStrategy\<rparr>,
           \<lparr>name = ''Headphones1'', price = PyInt 50, quantity = 25, discount_strategy = Some DiscountStrategy\<rparr>,
           \<lparr>name = ''Laptop1'', price = PyInt 800, quantity = 1, discount_strategy = Some DiscountStrategy\<rparr>]
          loaded_products))
     = NotEnoughStockWarning ''Headphones1''"
proof
  fix rt
  let ?laptop5 = "\<lparr>name = ''Laptop1'', price = PyInt 800, quantity = 5,
                   discount_strategy = Some DiscountStrategy\<rparr>"
  let ?phones25 = "\<lparr>name = ''Headphones1'', price = PyInt 50, quantity = 25,
                    discount_strategy = Some DiscountStrategy\<rparr>"
  let ?laptop1 = "\<lparr>name = ''Laptop1'', price = PyInt 800, quantity = 1,
                   discount_strategy = Some DiscountStrategy\<rparr>"
  let ?products1 = "loaded_products(''Laptop1'' \<mapsto>
         \<lparr>name = ''Laptop1'', price = PyInt 800, available = True, count = 15, discount = PyInt 5\<rparr>)"
  let ?phones = "\<lparr>name = ''Headphones1'', price = PyInt 50, available = False, count = 10,
                   discount = PyInt 0\<rparr>"
  have h1: "checkout_loop [?laptop5] loaded_products
              = (?products1, [CheckedOutInfo 5 ''Laptop1'' 15 True], True)"
    by (simp add: checkout_item_def Let_def loaded_products_def)
  have h2: "?products1 (name ?phones25) = Some ?phones"
    by (simp add: loaded_products_def)
  have h3: "count ?phones < quantity ?phones25"
    by simp
  have bill: "calculate_total_bill rt ([?laptop5] @ ?phones25 # [?laptop1]) = Inr (PyInt 6050)"
    by (simp add: calculate_total_bill_def calculate_total_def base_apply_discount_def and_then_def)
  from checkout_stops_at_first_shortage [of "[?laptop5]" loaded_products ?products1
        "[CheckedOutInfo 5 ''Laptop1'' 15 True]" ?phones25 ?phones "[?laptop1]" rt] h1 h2 h3
  have "case calculate_total_bill rt ([?laptop5] @ ?phones25 # [?laptop1]) of
             Inl e \<Rightarrow>
               fst (checkout rt ([?laptop5] @ ?phones25 # [?laptop1]) loaded_products)
                 = loaded_products
             \<and> last (snd (checkout rt ([?laptop5] @ ?phones25 # [?laptop1]) loaded_products))
                 = CheckoutErrorLog e
           | Inr bill \<Rightarrow>
               fst (checkout rt ([?laptop5] @ ?phones25 # [?laptop1]) loaded_products)
                 = ?products1
             \<and> last (snd (checkout rt ([?laptop5] @ ?phones25 # [?laptop1]) loaded_products))
                 = NotEnoughStockWarning (name ?phones25)"
    by blast
  then have "fst (checkout rt ([?laptop5] @ ?phones25 # [?laptop1]) loaded_products) = ?products1
      \<and> last (snd (checkout rt ([?laptop5] @ ?phones25 # [?laptop1]) loaded_products))
          = NotEnoughStockWarning (name ?phones25)"
    by (simp only: bill sum.case)
  then show "fst (checkout rt [?laptop5, ?phones25, ?laptop1] loaded_products) = ?products1
      \<and> last (snd (checkout rt [?laptop5, ?phones25, ?laptop1] loaded_products))
          = NotEnoughStockWarning ''Headphones1''"
    by simp
qed

text \<open>
  The exception of the arithmetic that ends \<open>checkout\<close> before its loop: an item whose
  discounted price is a float and whose quantity is too large an int for a float. The
  product of the two raises an \<open>OverflowError\<close>, the bill raises it, and \<open>checkout\<close> logs
  it and leaves the catalog alone.
\<close>

lemma checkout_overflow:
  assumes "discount_strategy item = Some strategy"
    and "apply_discount rt strategy (price item) = Inr (PyFloat discounted)"
    and "float_of_int rt (quantity item) = Inl OverflowError"
  shows "calculate_total rt item = Inl OverflowError"
    and "checkout rt [item] products =
           (products, [CartItemsInfo [(quantity item, name item)], CheckoutErrorLog OverflowError])"
proof -
  show total: "calculate_total rt item = Inl OverflowError"
    using assms by (simp add: calculate_total_def and_then_def on_floats_def as_float_def)
  then have "calculate_total_bill rt [item] = Inl OverflowError"
    by (simp add: calculate_total_bill_def and_then_def)
  then show "checkout rt [item] products =
           (products, [CartItemsInfo [(quantity item, name item)], CheckoutErrorLog OverflowError])"
    using checkout_bill_raises [of rt "[item]" OverflowError products] by simp
qed

text \<open>
  C3, as the code has it. \<open>checkout\<close> ends in one of three ways, told apart by its last
  message. Error: the bill that \<open>display_cart\<close> computes first raises (an item without a
  discount strategy, or an exception of the arithmetic); the exception is logged and the
  catalog is as it was. Success: every entry of the catalog has its count reduced by the
  quantities of all the items of its name, an entry brought to 0 by the cart is
  unavailable, and no entry is added; items whose name is not in the catalog are passed
  over. Failure: the message names the first item, in the order of the cart, whose quantity
  is more than the count its entry has when the loop reaches it.
\<close>

theorem checkout_outcomes:
  "(case last (snd (checkout rt cart_items products)) of
      CheckoutErrorLog e \<Rightarrow>
        calculate_total_bill rt cart_items = Inl e
      \<and> fst (checkout rt cart_items products) = products
    | PurchaseSuccessfulInfo \<Rightarrow>
        (\<exists>bill. calculate_total_bill rt cart_items = Inr bill)
      \<and> (\<forall>n p. products n = Some p \<longrightarrow>
           (\<exists>p'. fst (checkout rt cart_items products) n = Some p'
              \<and> count p' = count p
                   - (\<Sum>item\<leftarrow>filter (\<lambda>item. name item = n) cart_items. quantity item)
              \<and> (n \<in> name ` set cart_items \<and> count p' = 0 \<longrightarrow> \<not> available p')))
      \<and> (\<forall>n. products n = None \<longrightarrow> fst (checkout rt cart_items products) n = None)
    | NotEnoughStockWarning product_name \<Rightarrow>
        (\<exists>bill. calculate_total_bill rt cart_items = Inr bill)
      \<and> (\<exists>pre bad post logs1 product.
            cart_items = pre @ bad # post \<and> name bad = product_name
          \<and> checkout_loop pre products = (fst (checkout rt cart_items products), logs1, True)
          \<and> fst (checkout rt cart_items products) (name bad) = Some product
          \<and> count product < quantity bad)
    | _ \<Rightarrow> False)"
proof (cases "calculate_total_bill rt cart_items")
  case (Inl e)
  then show ?thesis by (simp add: checkout_bill_raises)
next
  case (Inr bill)
  obtain products' logs' finished where
    loop: "checkout_loop cart_items products = (products', logs', finished)"
    by (cases "checkout_loop cart_items products") auto
  note whole = checkout_bill_returns(1,2) [OF Inr loop]
  show ?thesis
  proof (cases finished)
    case True
    have "\<exists>p'. products' n = Some p'
            \<and> count p' = count p
                 - (\<Sum>item\<leftarrow>filter (\<lambda>item. name item = n) cart_items. quantity item)
            \<and> (n \<in> name ` set cart_items \<and> count p' = 0 \<longrightarrow> \<not> available p')"
      if "products n = Some p" for n p
      using checkout_loop_counts [of cart_items products products' logs' n p] loop True that
      by auto
    moreover have "products' n = None" if "products n = None" for n
      using checkout_loop_None [of products n cart_items] that loop by simp
    ultimately show ?thesis
      using whole True Inr by simp
  next
    case False
    have "checkout_loop cart_items products = (products', logs', False)"
      using loop False by simp
    from checkout_loop_stops [OF this]
    obtain pre bad post logs1 product where d:
      "cart_items = pre @ bad # post" "checkout_loop pre products = (products', logs1, True)"
      "products' (name bad) = Some product" "count product < quantity bad"
      "logs' = logs1 @ [NotEnoughStockWarning (name bad)]"
      by blast
    then show ?thesis
      using whole False Inr by auto
  qed
qed

theorem checkout_outcomes_witness:
  "\<forall>rt.
     last (snd (checkout rt
          [\<lparr>name = ''Laptop1'', price = PyInt 800, quantity = 20, discount_strategy = Some DiscountStrategy\<rparr>,
           \<lparr>name = ''Ghost'', price = PyInt 1, quantity = 1, discount_strategy = Some DiscountStrategy\<rparr>]
          loaded_products)) = PurchaseSuccessfulInfo
   \<and> (\<exists>p'. fst (checkout rt
          [\<lparr>name = ''Laptop1'', price = PyInt 800, quantity = 20, discount_strategy = Some DiscountStrategy\<rparr>,
           \<lparr>name = ''Ghost'', price = PyInt 1, quantity = 1, discount_strategy = Some DiscountStrategy\<rparr>]
          loaded_products) ''Laptop1'' = Some p' \<and> count p' = 0 \<and> \<not> available p')"
proof
  fix rt
  let ?cart = "[\<lparr>name = ''Laptop1'', price = PyInt 800, quantity = 20, discount_strategy = Some DiscountStrategy\<rparr>,
           \<lparr>name = ''Ghost'', price = PyInt 1, quantity = 1, discount_strategy = Some DiscountStrategy\<rparr>]"
  have l: "last (snd (checkout rt ?cart loaded_products)) = PurchaseSuccessfulInfo"
    by (simp add: checkout_def display_cart_def calculate_total_bill_def calculate_total_def
          base_apply_discount_def and_then_def checkout_item_def Let_def loaded_products_def)
  have p: "loaded_products ''Laptop1''
     = Some \<lparr>name = ''Laptop1'', price = PyInt 800, available = True, count = 20, discount = PyInt 5\<rparr>"
    by (simp add: loaded_products_def)
  from checkout_outcomes [of rt ?cart loaded_products] l
  have "\<forall>n p. loaded_products n = Some p \<longrightarrow>
                 (\<exists>p'. fst (checkout rt ?cart loaded_products) n = Some p'
                    \<and> count p' = count p
                         - (\<Sum>item\<leftarrow>filter (\<lambda>item. name item = n) ?cart. quantity item)
                    \<and> (n \<in> name ` set ?cart \<and> count p' = 0 \<longrightarrow> \<not> available p'))"
    by simp
  from this [rule_format, OF p] l
  show "last (snd (checkout rt ?cart loaded_products)) = PurchaseSuccessfulInfo
   \<and> (\<exists>p'. fst (checkout rt ?cart loaded_products) ''Laptop1'' = Some p'
         \<and> count p' = 0 \<and> \<not> available p')"
    by auto
qed

text \<open>
  C3 as the specification states it fails in two ways. For a cart holding one unit of a
  product that the catalog does not have, \<open>checkout\<close> reports success, although that pair
  is deducted from nothing and the catalog is as before. For a cart holding an item without
  a discount strategy, as the customer menu builds it for \<open>Headphones1\<close>, whose discount
  is 0, \<open>checkout\<close> logs the cart and then the exception: neither a success nor a failure
  naming a product.
\<close>

theorem checkout_outcomes_counterexample:
  "\<forall>rt.
     last (snd (checkout rt
          [\<lparr>name = ''Ghost'', price = PyInt 1, quantity = 1, discount_strategy = Some DiscountStrategy\<rparr>]
          loaded_products)) = PurchaseSuccessfulInfo
   \<and> loaded_products ''Ghost'' = None
   \<and> fst (checkout rt
          [\<lparr>name = ''Ghost'', price = PyInt 1, quantity = 1, discount_strategy = Some DiscountStrategy\<rparr>]
          loaded_products) = loaded_products
   \<and> checkout rt
          [\<lparr>name = ''Headphones1'', price = PyInt 50, quantity = 1, discount_strategy = None\<rparr>]
          loaded_products
       = (loaded_products, [CartItemsInfo [(1, ''Headphones1'')], CheckoutErrorLog AttributeError])"
  by (simp add: checkout_def display_cart_def calculate_total_bill_def calculate_total_def
          base_apply_discount_def and_then_def checkout_item_def Let_def loaded_products_def)

text \<open>
  C10. An item whose name is not in the catalog is passed over by the loop of \<open>checkout\<close>:
  the catalog stays as it is, nothing is logged, and the loop goes on, so the loop over a
  cart with such an item does what the loop over the cart without it does. When the bill
  that \<open>checkout\<close> displays first can be computed, \<open>checkout\<close> ends with the catalog of
  that loop, and with the success message when the other items all find enough stock; when
  the bill raises, the loop is not reached.
\<close>

theorem checkout_skips_absent:
  assumes "products (name item) = None"
  shows "checkout_item item products = (products, [], True)
       \<and> checkout_loop (pre @ item # post) products = checkout_loop (pre @ post) products
       \<and> (case calculate_total_bill rt (pre @ item # post) of
             Inl e \<Rightarrow>
               fst (checkout rt (pre @ item # post) products) = products
             \<and> last (snd (checkout rt (pre @ item # post) products)) = CheckoutErrorLog e
           | Inr bill \<Rightarrow>
               fst (checkout rt (pre @ item # post) products)
                 = fst (checkout_loop (pre @ post) products)
             \<and> (snd (snd (checkout_loop (pre @ post) products)) \<longrightarrow>
                  last (snd (checkout rt (pre @ item # post) products))
                    = PurchaseSuccessfulInfo))"
proof -
  have step: "checkout_item item products' = (products', [], True)"
    if "products' (name item) = None" for products'
    using that by (simp add: checkout_item_def)
  have skip: "checkout_loop (item # post) products' = checkout_loop post products'"
    if "products' (name item) = None" for products'
    using step [of products'] that by (simp split: prod.splits)
  have loop: "checkout_loop (pre @ item # post) products = checkout_loop (pre @ post) products"
    using skip [of "fst (checkout_loop pre products)"]
      checkout_loop_None [of products "name item" pre] assms
    by (cases "checkout_loop pre products")
       (simp add: checkout_loop_append [of pre "item # post"] checkout_loop_append [of pre post])
  have whole: "(case calculate_total_bill rt (pre @ item # post) of
             Inl e \<Rightarrow>
               fst (checkout rt (pre @ item # post) products) = products
             \<and> last (snd (checkout rt (pre @ item # post) products)) = CheckoutErrorLog e
           | Inr bill \<Rightarrow>
               fst (checkout rt (pre @ item # post) products)
                 = fst (checkout_loop (pre @ post) products)
             \<and> (snd (snd (checkout_loop (pre @ post) products)) \<longrightarrow>
                  last (snd (checkout rt (pre @ item # post) products))
                    = PurchaseSuccessfulInfo))"
  proof (cases "calculate_total_bill rt (pre @ item # post)")
    case (Inl e)
    then show ?thesis by (simp add: checkout_bill_raises)
  next
    case (Inr bill)
    obtain products' logs' finished where
      l: "checkout_loop (pre @ post) products = (products', logs', finished)"
      by (cases "checkout_loop (pre @ post) products") auto
    show ?thesis
      using checkout_bill_returns(1,2) [OF Inr l [folded loop]] l Inr by simp
  qed
  show ?thesis
    using step [of products] assms loop whole by blast
qed

theorem checkout_skips_absent_witness:
  "\<forall>rt.
     checkout_loop
          [\<lparr>name = ''Ghost'', price = PyInt 1, quantity = 1, discount_strategy = Some DiscountStrategy\<rparr>,
           \<lparr>name = ''Laptop1'', price = PyInt 800, quantity = 5, discount_strategy = Some DiscountStrategy\<rparr>]
          loaded_products
     = checkout_loop
          [\<lparr>name = ''Laptop1'', price = PyInt 800, quantity = 5, discount_strategy = Some DiscountStrategy\<rparr>]
          loaded_products
   \<and> last (snd (checkout rt
          [\<lparr>name = ''Ghost'', price = PyInt 1, quantity = 1, discount_strategy = Some DiscountStrategy\<rparr>,
           \<lparr>name = ''Laptop1'', price = PyInt 800, quantity = 5, discount_strategy = Some DiscountStrategy\<rparr>]
          loaded_products)) = PurchaseSuccessfulInfo"
proof
  fix rt
  let ?ghost = "\<lparr>name = ''Ghost'', price = PyInt 1, quantity = 1, discount_strategy = Some DiscountStrategy\<rparr>"
  let ?laptop = "\<lparr>name = ''Laptop1'', price = PyInt 800, quantity = 5, discount_strategy = Some DiscountStrategy\<rparr>"
  have h: "loaded_products (name ?ghost) = None"
    by (simp add: loaded_products_def)
  have f: "snd (snd (checkout_loop ([] @ [?laptop]) loaded_products))"
    by (simp add: checkout_item_def Let_def loaded_products_def)
  have bill: "calculate_total_bill rt ([] @ ?ghost # [?laptop]) = Inr (PyInt 4001)"
    by (simp add: calculate_total_bill_def calculate_total_def base_apply_discount_def and_then_def)
  from checkout_skips_absent [of loaded_products ?ghost "[]" "[?laptop]" rt] h
  have loop: "checkout_loop ([] @ ?ghost # [?laptop]) loaded_products
                = checkout_loop ([] @ [?laptop]) loaded_products"
    and "case calculate_total_bill rt ([] @ ?ghost # [?laptop]) of
             Inl e \<Rightarrow>
               fst (checkout rt ([] @ ?ghost # [?laptop]) loaded_products) = loaded_products
             \<and> last (snd (checkout rt ([] @ ?ghost # [?laptop]) loaded_products)) = CheckoutErrorLog e
           | Inr bill \<Rightarrow>
               fst (checkout rt ([] @ ?ghost # [?laptop]) loaded_products)
                 = fst (checkout_loop ([] @ [?laptop]) loaded_products)
             \<and> (snd (snd (checkout_loop ([] @ [?laptop]) loaded_products)) \<longrightarrow>
                  last (snd (checkout rt ([] @ ?ghost # [?laptop]) loaded_products))
                    = PurchaseSuccessfulInfo)"
    by blast+
  then have "last (snd (checkout rt ([] @ ?ghost # [?laptop]) loaded_products))
               = PurchaseSuccessfulInfo"
    using f by (simp only: bill sum.case)
  with loop show "checkout_loop [?ghost, ?laptop] loaded_products
                    = checkout_loop [?laptop] loaded_products
      \<and> last (snd (checkout rt [?ghost, ?laptop] loaded_products)) = PurchaseSuccessfulInfo"
    by (simp only: append_Nil)
qed

section \<open>Removing every item of a name\<close>

text \<open>
  C6. \<open>remove_item\<close> called without a quantity leaves no item of the given name in the
  cart, and the items of every other name stay as they were, in their order.
\<close>

theorem remove_item_all:
  "(\<forall>item \<in> set (remove_item product_name None cart_items). name item \<noteq> product_name)
   \<and> filter (\<lambda>item. name item \<noteq> product_name) (remove_item product_name None cart_items)
       = filter (\<lambda>item. name item \<noteq> product_name) cart_items"
  by (simp add: remove_item_def)

theorem remove_item_all_witness:
  "list_all (\<lambda>item. name item \<noteq> ''Pen'')
     (remove_item ''Pen'' None
        [\<lparr>name = ''Pen'', price = PyInt 2, quantity = 1, discount_strategy = Some DiscountStrategy\<rparr>,
         \<lparr>name = ''Ink'', price = PyInt 5, quantity = 2, discount_strategy = None\<rparr>,
         \<lparr>name = ''Pen'', price = PyInt 2, quantity = 7, discount_strategy = None\<rparr>])
   \<and> filter (\<lambda>item. name item \<noteq> ''Pen'')
     (remove_item ''Pen'' None
        [\<lparr>name = ''Pen'', price = PyInt 2, quantity = 1, discount_strategy = Some DiscountStrategy\<rparr>,
         \<lparr>name = ''Ink'', price = PyInt 5, quantity = 2, discount_strategy = None\<rparr>,
         \<lparr>name = ''Pen'', price = PyInt 2, quantity = 7, discount_strategy = None\<rparr>])
     = [\<lparr>name = ''Ink'', price = PyInt 5, quantity = 2, discount_strategy = None\<rparr>]"
  using remove_item_all [of "''Pen''"
     "[\<lparr>name = ''Pen'', price = PyInt 2, quantity = 1, discount_strategy = Some DiscountStrategy\<rparr>,
       \<lparr>name = ''Ink'', price = PyInt 5, quantity = 2, discount_strategy = None\<rparr>,
       \<lparr>name = ''Pen'', price = PyInt 2, quantity = 7, discount_strategy = None\<rparr>]"]
  by (simp add: list_all_iff)

section \<open>The total bill\<close>

text \<open>
  C7 at a cart as the customer menu builds it for \<open>Headphones1\<close>: the discount of the
  product is 0, so the menu passes \<open>None\<close> as the strategy of the item, and the total of
  the item, and with it the bill, raises instead of being the price times the quantity.
\<close>

theorem calculate_total_bill_without_strategy:
  "calculate_total_bill rt
     [\<lparr>name = ''Headphones1'', price = PyInt 50, quantity = 1, discount_strategy = None\<rparr>]
   = Inl AttributeError"
  by (simp add: calculate_total_bill_def calculate_total_def base_apply_discount_def and_then_def)

section \<open>Registering and cloning\<close>

text \<open>
  C8. A product registered under a name and then cloned with quantity \<open>q\<close> and the base
  strategy (which leaves the price as it is) gives an item of that name, price and quantity
  whose total is the product of the price and \<open>q\<close>, as Python's \<open>*\<close> computes it; for a
  price that is an int it is the exact product. This holds for every \<open>q\<close>, positive or
  not.
\<close>

theorem register_clone_total:
  "clone (register_product products n p a d) n q (Some DiscountStrategy) =
     Inr \<lparr>name = n, price = p, quantity = q, discount_strategy = Some DiscountStrategy\<rparr>
   \<and> calculate_total rt
       \<lparr>name = n, price = p, quantity = q, discount_strategy = Some DiscountStrategy\<rparr>
       = py_mul rt p (PyInt q)
   \<and> calculate_total rt
       \<lparr>name = n, price = PyInt k, quantity = q, discount_strategy = Some DiscountStrategy\<rparr>
       = Inr (PyInt (k * q))"
  by (simp add: clone_def register_product_def calculate_total_def base_apply_discount_def
        and_then_def)

section \<open>Quantities of the items in the cart\<close>

lemma remove_loop_quantities:
  "\<forall>item \<in> set cart_items. 0 < quantity item \<Longrightarrow>
   \<forall>item \<in> set (remove_loop product_name q i cart_items). 0 < quantity item"
proof (induction product_name q i cart_items rule: remove_loop.induct)
  case (1 product_name q i cart_items)
  show ?case
  proof (cases "i < length cart_items")
    case False
    then show ?thesis using "1.prems" by (simp add: remove_loop.simps)
  next
    case inb: True
    let ?item = "cart_items ! i"
    show ?thesis
    proof (cases "name ?item = product_name")
      case False
      then show ?thesis
        using inb "1.IH"(3) [OF inb refl] "1.prems"
        by (subst remove_loop.simps) (simp add: Let_def)
    next
      case nm: True
      let ?item' = "?item\<lparr>quantity := quantity ?item - q\<rparr>"
      show ?thesis
      proof (cases "quantity ?item' \<le> 0")
        case True
        have "\<forall>item \<in> set (take i cart_items @ drop (Suc i) cart_items). 0 < quantity item"
          using "1.prems" by (auto dest: in_set_takeD in_set_dropD)
        then show ?thesis
          using inb nm True "1.IH"(1) [OF inb refl nm refl]
          by (subst remove_loop.simps) (simp add: Let_def)
      next
        case False
        have "\<forall>item \<in> set (cart_items[i := ?item']). 0 < quantity item"
          using "1.prems" False by (auto dest!: set_update_subset_insert [THEN subsetD])
        then show ?thesis
          using inb nm False "1.IH"(2) [OF inb refl nm refl]
          by (subst remove_loop.simps) (simp add: Let_def)
      qed
    qed
  qed
qed

lemma update_quantity_quantities:
  "0 < q \<Longrightarrow> \<forall>item \<in> set cart_items. 0 < quantity item \<Longrightarrow>
   \<forall>item \<in> set (update_quantity product_name q cart_items). 0 < quantity item"
  by (induction cart_items) auto

text \<open>
  C4, as the code has it. \<open>remove_item\<close>, with or without a quantity, keeps every
  quantity in the cart positive: the loop deletes the item whose quantity it has brought to
  0 or below. \<open>add_item\<close> and \<open>update_quantity\<close> store the quantity they are given without
  looking at it, so they keep the quantities positive when that quantity is positive.
\<close>

theorem cart_quantities_positive:
  assumes "\<forall>item \<in> set cart_items. 0 < quantity item"
  shows "(\<forall>item \<in> set (remove_item product_name remove_quantity cart_items). 0 < quantity item)
       \<and> (0 < q \<longrightarrow>
            (\<forall>item \<in> set (add_item product q strategy cart_items). 0 < quantity item)
          \<and> (\<forall>item \<in> set (update_quantity product_name q cart_items). 0 < quantity item))"
proof (intro conjI impI)
  show "\<forall>item \<in> set (remove_item product_name remove_quantity cart_items). 0 < quantity item"
    using assms remove_loop_quantities [OF assms]
    by (cases remove_quantity) (auto simp: remove_item_def)
next
  assume "0 < q"
  then show "\<forall>item \<in> set (add_item product q strategy cart_items). 0 < quantity item"
    using assms by (auto simp: add_item_def)
next
  assume "0 < q"
  then show "\<forall>item \<in> set (update_quantity product_name q cart_items). 0 < quantity item"
    using assms by (rule update_quantity_quantities)
qed

theorem cart_quantities_positive_witness:
  "list_all (\<lambda>item. 0 < quantity item)
     (remove_item ''Pen'' (Some 3)
        [\<lparr>name = ''Pen'', price = PyInt 2, quantity = 3, discount_strategy = Some DiscountStrategy\<rparr>,
         \<lparr>name = ''Ink'', price = PyInt 5, quantity = 2, discount_strategy = None\<rparr>])
   \<and> list_all (\<lambda>item. 0 < quantity item)
     (add_item \<lparr>name = ''Cap'', price = PyInt 1\<rparr> 4 None
        [\<lparr>name = ''Pen'', price = PyInt 2, quantity = 3, discount_strategy = Some DiscountStrategy\<rparr>,
         \<lparr>name = ''Ink'', price = PyInt 5, quantity = 2, discount_strategy = None\<rparr>])
   \<and> list_all (\<lambda>item. 0 < quantity item)
     (update_quantity ''Pen'' 4
        [\<lparr>name = ''Pen'', price = PyInt 2, quantity = 3, discount_strategy = Some DiscountStrategy\<rparr>,
         \<lparr>name = ''Ink'', price = PyInt 5, quantity = 2, discount_strategy = None\<rparr>])"
  using cart_quantities_positive [of
     "[\<lparr>name = ''Pen'', price = PyInt 2, quantity = 3, discount_strategy = Some DiscountStrategy\<rparr>,
       \<lparr>name = ''Ink'', price = PyInt 5, quantity = 2, discount_strategy = None\<rparr>]"
     "''Pen''" "Some 3" 4 "\<lparr>name = ''Cap'', price = PyInt 1\<rparr>" None]
  by (simp add: list_all_iff)

text \<open>
  C4 as the specification states it fails: \<open>update_quantity\<close> with the quantity 0 leaves
  the item in the cart with quantity 0, and \<open>add_item\<close> with the quantity 0 appends such an
  item to the empty cart.
\<close>

theorem cart_quantities_positive_counterexample:
  "0 < quantity \<lparr>name = ''Pen'', price = PyInt 2, quantity = 1, discount_strategy = Some DiscountStrategy\<rparr>
   \<and> update_quantity ''Pen'' 0
       [\<lparr>name = ''Pen'', price = PyInt 2, quantity = 1, discount_strategy = Some DiscountStrategy\<rparr>]
     = [\<lparr>name = ''Pen'', price = PyInt 2, quantity = 0, discount_strategy = Some DiscountStrategy\<rparr>]
   \<and> add_item \<lparr>name = ''Pen'', price = PyInt 2\<rparr> 0 (Some DiscountStrategy) []
     = [\<lparr>name = ''Pen'', price = PyInt 2, quantity = 0, discount_strategy = Some DiscountStrategy\<rparr>]"
  by (simp add: add_item_def)

section \<open>Removing a quantity\<close>

lemma remove_loop_unfold:
  "remove_loop product_name q i cart_items =
     (if i < length cart_items then
        if name (cart_items ! i) = product_name then
          if quantity (cart_items ! i) \<le> q
          then remove_loop product_name q (Suc i) (take i cart_items @ drop (Suc i) cart_items)
          else remove_loop product_name q (Suc i)
                 (cart_items[i := (cart_items ! i)\<lparr>quantity := quantity (cart_items ! i) - q\<rparr>])
        else remove_loop product_name q (Suc i) cart_items
      else cart_items)"
  by (subst remove_loop.simps) (simp add: Let_def)

text \<open>
  The loop leaves a list alone from an index on which no item has the name, and it passes
  over a prefix without the name.
\<close>

lemma remove_loop_no_match:
  "\<forall>j. i \<le> j \<and> j < length cart_items \<longrightarrow> name (cart_items ! j) \<noteq> product_name \<Longrightarrow>
   remove_loop product_name q i cart_items = cart_items"
proof (induction "length cart_items - i" arbitrary: i)
  case 0
  then show ?case by (subst remove_loop_unfold) simp
next
  case (Suc d)
  then have "i < length cart_items" and "name (cart_items ! i) \<noteq> product_name"
    by auto
  moreover have "remove_loop product_name q (Suc i) cart_items = cart_items"
    using Suc.hyps(1) [of "Suc i"] Suc.hyps(2) Suc.prems by auto
  ultimately show ?case
    by (subst remove_loop_unfold) simp
qed

lemma remove_loop_prefix:
  "\<forall>item \<in> set pre. name item \<noteq> product_name \<Longrightarrow> i \<le> length pre \<Longrightarrow>
   remove_loop product_name q i (pre @ rest) = remove_loop product_name q (length pre) (pre @ rest)"
proof (induction "length pre - i" arbitrary: i)
  case 0
  then show ?case by simp
next
  case (Suc d)
  then have i: "i < length pre" by auto
  then have "name ((pre @ rest) ! i) \<noteq> product_name"
    using Suc.prems(1) by (simp add: nth_append)
  moreover have "remove_loop product_name q (Suc i) (pre @ rest)
                   = remove_loop product_name q (length pre) (pre @ rest)"
    using Suc.hyps(1) [of "Suc i"] Suc.hyps(2) Suc.prems(1) i by auto
  ultimately show ?case
    using i by (subst remove_loop_unfold) simp
qed

text \<open>
  When one item of the cart has the name, \<open>remove_item\<close> with a quantity does what is
  expected of it: the item is deleted when the quantity removed is at least its own, and
  otherwise stays with its quantity reduced; every other item is as before.
\<close>

lemma remove_item_single_match:
  assumes "\<forall>other \<in> set pre. name other \<noteq> product_name"
    and "\<forall>other \<in> set post. name other \<noteq> product_name"
    and "name item = product_name"
  shows "remove_item product_name (Some q) (pre @ item # post) =
           (if quantity item \<le> q then pre @ post
            else pre @ item\<lparr>quantity := quantity item - q\<rparr> # post)"
proof -
  have start: "remove_item product_name (Some q) (pre @ item # post)
                 = remove_loop product_name q (length pre) (pre @ item # post)"
    using remove_loop_prefix [OF assms(1), of 0 q "item # post"]
    by (simp add: remove_item_def)
  show ?thesis
  proof (cases "quantity item \<le> q")
    case True
    have "\<forall>j. Suc (length pre) \<le> j \<and> j < length (pre @ post) \<longrightarrow>
            name ((pre @ post) ! j) \<noteq> product_name"
      using assms(2) by (auto simp: nth_append)
    then have "remove_loop product_name q (Suc (length pre)) (pre @ post) = pre @ post"
      by (rule remove_loop_no_match)
    then show ?thesis
      using True assms(3) start by (subst (asm) remove_loop_unfold) simp
  next
    case False
    let ?kept = "pre @ item\<lparr>quantity := quantity item - q\<rparr> # post"
    have "\<forall>j. Suc (length pre) \<le> j \<and> j < length ?kept \<longrightarrow> name (?kept ! j) \<noteq> product_name"
      using assms(2) by (auto simp: nth_append nth_Cons split: nat.splits)
    then have "remove_loop product_name q (Suc (length pre)) ?kept = ?kept"
      by (rule remove_loop_no_match)
    then show ?thesis
      using False assms(3) start by (subst (asm) remove_loop_unfold) simp
  qed
qed

text \<open>
  C5 at a cart with two items of the same name, one after the other. Removing 1 brings the
  first to 0 and deletes it; the second moves to the index the iterator has just left and is
  never visited, so it keeps its quantity 5 instead of going down to 4.
\<close>

theorem remove_item_skips_next:
  "remove_item ''Pen'' (Some 1)
     [\<lparr>name = ''Pen'', price = PyInt 2, quantity = 1, discount_strategy = Some DiscountStrategy\<rparr>,
      \<lparr>name = ''Pen'', price = PyInt 2, quantity = 5, discount_strategy = Some DiscountStrategy\<rparr>]
   = [\<lparr>name = ''Pen'', price = PyInt 2, quantity = 5, discount_strategy = Some DiscountStrategy\<rparr>]"
  by (simp add: remove_item_def remove_loop.simps)


section \<open>Line items and the catalog\<close>

text \<open>
  C9. \<open>clone\<close> allocates the line item at a new address \<open>c\<close> with the name and the price
  of the catalog entry and the quantity asked for; it is the item that \<open>clone\<close> over values
  returns. Whatever \<open>Product\<close> value the object of the catalog entry is given afterwards,
  the object at \<open>c\<close> is still that item, so its name, price, quantity and total are as
  before; so it is when a further object is allocated, as \<open>register_product\<close> does for a
  name registered again.
\<close>

theorem clone_independent_of_catalog:
  assumes "products n = Some a" and "a < length store" and "store ! a = ProductObject product"
  shows "\<exists>store' c item.
           clone_in_store store products n q strategy = Inr (store', c)
         \<and> clone (catalog_of store products) n q strategy = Inr item
         \<and> name item = name product \<and> price item = price product \<and> quantity item = q
         \<and> c < length store' \<and> store' ! c = CartItemObject item
         \<and> store' ! a = ProductObject product
         \<and> (\<forall>product'. (store'[a := ProductObject product']) ! c = CartItemObject item)
         \<and> (\<forall>object. (store' @ [object]) ! c = CartItemObject item)"
proof -
  let ?item = "\<lparr>name = name product, price = price product, quantity = q,
                 discount_strategy = strategy\<rparr>"
  let ?store' = "store @ [ProductObject product, CartItemObject ?item]"
  let ?c = "Suc (length store)"
  have "clone_in_store store products n q strategy = Inr (?store', ?c)"
    using assms by (simp add: clone_in_store_def Let_def)
  moreover have "clone (catalog_of store products) n q strategy = Inr ?item"
    using assms by (simp add: clone_def catalog_of_def)
  moreover have "?store' ! ?c = CartItemObject ?item"
    by (simp add: nth_append)
  moreover have "?store' ! a = ProductObject product"
    using assms by (simp add: nth_append)
  moreover have "(?store'[a := ProductObject product']) ! ?c = CartItemObject ?item" for product'
    using assms(2) by (simp add: nth_append list_update_append)
  moreover have "(?store' @ [object]) ! ?c = CartItemObject ?item" for object
    by (simp add: nth_append)
  ultimately show ?thesis
    by (intro exI [of _ ?store'] exI [of _ ?c] exI [of _ ?item]) simp
qed

theorem clone_independent_of_catalog_witness:
  "\<exists>store' c.
      clone_in_store
        [ProductObject \<lparr>name = ''Laptop1'', price = PyInt 800, available = True, count = 20, discount = PyInt 5\<rparr>]
        [''Laptop1'' \<mapsto> 0] ''Laptop1'' 2 (Some DiscountStrategy) = Inr (store', c)
    \<and> store' ! c = CartItemObject \<lparr>name = ''Laptop1'', price = PyInt 800, quantity = 2,
                                   discount_strategy = Some DiscountStrategy\<rparr>
    \<and> (store'[0 := ProductObject
           \<lparr>name = ''Laptop1'', price = PyInt 999, available = False, count = 0, discount = PyInt 50\<rparr>]) ! c
        = CartItemObject \<lparr>name = ''Laptop1'', price = PyInt 800, quantity = 2,
                           discount_strategy = Some DiscountStrategy\<rparr>"
proof -
  let ?laptop = "\<lparr>name = ''Laptop1'', price = PyInt 800, available = True, count = 20, discount = PyInt 5\<rparr>"
  have h1: "[''Laptop1'' \<mapsto> 0::nat] ''Laptop1'' = Some 0" by simp
  have h2: "0 < length [ProductObject ?laptop]" by simp
  have h3: "[ProductObject ?laptop] ! 0 = ProductObject ?laptop" by simp
  from clone_independent_of_catalog [of "[''Laptop1'' \<mapsto> 0]" "''Laptop1''" 0
         "[ProductObject ?laptop]" ?laptop 2 "Some DiscountStrategy"] h1 h2 h3
  obtain store' c item where r:
    "clone_in_store [ProductObject ?laptop] [''Laptop1'' \<mapsto> 0] ''Laptop1'' 2 (Some DiscountStrategy)
       = Inr (store', c)"
    "clone (catalog_of [ProductObject ?laptop] [''Laptop1'' \<mapsto> 0]) ''Laptop1'' 2
       (Some DiscountStrategy) = Inr item"
    "store' ! c = CartItemObject item"
    "\<forall>product'. (store'[0 := ProductObject product']) ! c = CartItemObject item"
    by blast
  from r(2) have "item = \<lparr>name = ''Laptop1'', price = PyInt 800, quantity = 2,
                           discount_strategy = Some DiscountStrategy\<rparr>"
    by (simp add: clone_def catalog_of_def)
  with r show ?thesis by blast
qed

end
